theory Spec2Isabelle
  imports Main "HOL-Library.Signed_Division"
begin

section \<open>JavaScript values used by the backend\<close>

text \<open>
  Strings are \<open>string\<close>; a property that may be \<open>undefined\<close> (an optional field of a
  JSON body, an unset environment variable) is a \<open>string option\<close>. JavaScript's
  \<open>!x\<close> on such a value is true for \<open>undefined\<close> and for the empty string.
  A \<open>bigint\<close> is an \<open>int\<close>; a \<open>number\<close> that holds a count (nonce, port, chain id,
  attempts) is an \<open>int\<close> too, with \<open>NaN\<close> as \<open>None\<close> where \<open>parseInt\<close> can produce it.
  A thrown \<open>Error\<close> is \<open>Inl message\<close>. Characters are those of ASCII, where the
  length and the prefix of a JavaScript string are those of the \<open>char\<close> list; white space
  is the ASCII white space. The rounding of a \<open>number\<close> beyond \<open>2^53\<close> is not modelled.
\<close>

definition falsy :: "string option \<Rightarrow> bool" where
  "falsy v = (case v of None \<Rightarrow> True | Some s \<Rightarrow> s = [])"

definition orElse :: "string option \<Rightarrow> string \<Rightarrow> string" where
  \<comment> \<open>\<open>v || d\<close> on a string-or-undefined value\<close>
  "orElse v d = (case v of None \<Rightarrow> d | Some s \<Rightarrow> if s = [] then d else s)"

definition startsWith :: "string \<Rightarrow> string \<Rightarrow> bool" where
  "startsWith s p = (take (length p) s = p)"

definition isWhiteSpace :: "char \<Rightarrow> bool" where
  "isWhiteSpace c = (c \<in> set [CHR '' '', CHR 0x09, CHR 0x0A, CHR 0x0B, CHR 0x0C, CHR 0x0D])"

definition trim :: "string \<Rightarrow> string" where
  "trim s = rev (dropWhile isWhiteSpace (rev (dropWhile isWhiteSpace s)))"

definition digitVal :: "char \<Rightarrow> nat option" where
  "digitVal c =
     (let n = (of_char c :: nat) in
      if 48 \<le> n \<and> n \<le> 57 then Some (n - 48)
      else if 97 \<le> n \<and> n \<le> 102 then Some (n - 87)
      else if 65 \<le> n \<and> n \<le> 70 then Some (n - 55)
      else None)"

definition isDigit :: "nat \<Rightarrow> char \<Rightarrow> bool" where
  "isDigit radix c = (case digitVal c of None \<Rightarrow> False | Some d \<Rightarrow> d < radix)"

definition digitsValue :: "nat \<Rightarrow> string \<Rightarrow> int" where
  "digitsValue radix ds = foldl (\<lambda>acc c. acc * int radix + int (the (digitVal c))) 0 ds"

definition parseInt :: "string \<Rightarrow> int option" where
  \<comment> \<open>\<open>parseInt(s)\<close> without a radix: leading white space, a sign, an optional \<open>0x\<close>,
      then the longest prefix of digits; \<open>NaN\<close> (\<open>None\<close>) when that prefix is empty.\<close>
  "parseInt s =
     (let t = dropWhile isWhiteSpace s;
          neg = (t \<noteq> [] \<and> hd t = CHR ''-'');
          u = (if t \<noteq> [] \<and> (hd t = CHR ''-'' \<or> hd t = CHR ''+'') then tl t else t);
          hex = (startsWith u ''0x'' \<or> startsWith u ''0X'');
          radix = (if hex then 16 else 10);
          ds = takeWhile (isDigit radix) (if hex then drop 2 u else u)
      in if ds = [] then None
         else Some ((if neg then - 1 else 1) * digitsValue radix ds))"

function digits :: "int \<Rightarrow> string" where
  \<comment> \<open>the decimal digits of a non-negative integer, most significant first\<close>
  "digits n =
     (if n < 10 then [char_of (48 + n)]
      else digits (n div 10) @ [char_of (48 + n mod 10)])"
  by pat_completeness auto
termination
  by (relation "measure nat") auto

declare digits.simps [simp del]

definition toString :: "int \<Rightarrow> string" where
  \<comment> \<open>\<open>x.toString()\<close> of a bigint (and of an integral number)\<close>
  "toString i = (if i < 0 then CHR ''-'' # digits (- i) else digits i)"

definition parseDigits :: "nat \<Rightarrow> string \<Rightarrow> string \<Rightarrow> string + int" where
  "parseDigits radix whole ds =
     (if ds \<noteq> [] \<and> list_all (isDigit radix) ds then Inr (digitsValue radix ds)
      else Inl (''Cannot convert '' @ whole @ '' to a BigInt''))"

definition BigInt :: "string \<Rightarrow> string + int" where
  \<comment> \<open>\<open>BigInt(s)\<close> of a string: white space trimmed, the empty string is \<open>0n\<close>, a
      \<open>0x\<close>/\<open>0o\<close>/\<open>0b\<close> literal has no sign, a decimal literal may have one; anything
      else throws a SyntaxError.\<close>
  "BigInt s =
     (let t = trim s in
      if t = [] then Inr 0
      else if startsWith t ''0x'' \<or> startsWith t ''0X'' then parseDigits 16 s (drop 2 t)
      else if startsWith t ''0o'' \<or> startsWith t ''0O'' then parseDigits 8 s (drop 2 t)
      else if startsWith t ''0b'' \<or> startsWith t ''0B'' then parseDigits 2 s (drop 2 t)
      else if hd t = CHR ''-'' then map_sum id uminus (parseDigits 10 s (tl t))
      else if hd t = CHR ''+'' then parseDigits 10 s (tl t)
      else parseDigits 10 s t)"

section \<open>Configuration (src/config/index.ts)\<close>

record supabase_config =
  url :: "string option"
  anonKey :: "string option"
  serviceRoleKey :: "string option"
  jwtSecret :: "string option"

record para_config =
  apiKey :: "string option"
  baseUrl :: string

record ethereum_config =
  rpcUrl :: "string option"
  chainId :: "int option"

record config =
  port :: "int option"
  nodeEnv :: string
  supabase :: supabase_config
  para :: para_config
  ethereum :: ethereum_config

type_synonym process_env = "string \<rightharpoonup> string"

definition requiredVars :: "string list" where
  "requiredVars =
     [''SUPABASE_URL'', ''SUPABASE_ANON_KEY'', ''SUPABASE_SERVICE_ROLE_KEY'',
      ''SUPABASE_JWT_SECRET'', ''PARA_API_KEY'', ''SEPOLIA_RPC_URL'']"

fun checkRequired :: "process_env \<Rightarrow> string list \<Rightarrow> string option" where
  \<comment> \<open>the validation loop: the message of the first throw, if any\<close>
  "checkRequired env [] = None"
| "checkRequired env (variable # rest) =
     (if falsy (env variable)
      then Some (''Missing required environment variable: '' @ variable)
      else checkRequired env rest)"

definition buildConfig :: "process_env \<Rightarrow> config" where
  "buildConfig env =
     \<lparr> port = parseInt (orElse (env ''PORT'') ''3000''),
       nodeEnv = orElse (env ''NODE_ENV'') ''development'',
       supabase = \<lparr> url = env ''SUPABASE_URL'',
                    anonKey = env ''SUPABASE_ANON_KEY'',
                    serviceRoleKey = env ''SUPABASE_SERVICE_ROLE_KEY'',
                    jwtSecret = env ''SUPABASE_JWT_SECRET'' \<rparr>,
       para = \<lparr> apiKey = env ''PARA_API_KEY'',
                baseUrl = orElse (env ''PARA_BASE_URL'') ''https://api.getpara.com'' \<rparr>,
       ethereum = \<lparr> rpcUrl = env ''SEPOLIA_RPC_URL'',
                    chainId = parseInt (orElse (env ''SEPOLIA_CHAIN_ID'') ''11155111'') \<rparr> \<rparr>"

definition loadConfig :: "process_env \<Rightarrow> string + config" where
  \<comment> \<open>evaluating the module: the object is built, then the loop may throw\<close>
  "loadConfig env =
     (case checkRequired env requiredVars of
        Some message \<Rightarrow> Inl message
      | None \<Rightarrow> Inr (buildConfig env))"

definition minimalEnv :: process_env where
  "minimalEnv =
     [''SUPABASE_URL'' \<mapsto> ''https://p.supabase.co'', ''SUPABASE_ANON_KEY'' \<mapsto> ''anon'',
      ''SUPABASE_SERVICE_ROLE_KEY'' \<mapsto> ''service'', ''SUPABASE_JWT_SECRET'' \<mapsto> ''secret'',
      ''PARA_API_KEY'' \<mapsto> ''key'', ''SEPOLIA_RPC_URL'' \<mapsto> ''https://rpc.example'']"

section \<open>Types (src/types)\<close>

record UserWallet =
  supabase_id :: string
  para_wallet_id :: string
  wallet_address :: "string option"
  created_at :: string
  updated_at :: string

record ParaWallet =
  pw_id :: string
  pw_type :: string
  pw_status :: string
  pw_address :: "string option"
  pw_publicKey :: "string option"
  pw_createdAt :: string
  pw_scheme :: string
  pw_userIdentifier :: string
  pw_userIdentifierType :: string

record ParaSignResponse =
  sig_signature :: string
  sig_data :: string

text \<open>
  The body of a send request. \<open>to\<close> and \<open>amount\<close> are strings; one that the JSON body
  leaves out is \<open>undefined\<close>, which every test of the handler treats like the empty
  string, so both are the empty string here.
\<close>

record SendTransactionRequest =
  req_to :: string
  req_amount :: string
  req_gasLimit :: "string option"
  req_maxFeePerGas :: "string option"
  req_maxPriorityFeePerGas :: "string option"

text \<open>The object literal of \<open>buildUnsignedTransaction\<close>; \<open>signature\<close> is absent until
  \<open>serializeWithSignature\<close> spreads the object and adds it.\<close>

record transaction =
  tx_type :: nat
  tx_to :: string
  tx_from :: string
  tx_value :: int
  tx_data :: string
  tx_gasLimit :: int
  tx_nonce :: int
  tx_maxFeePerGas :: int
  tx_maxPriorityFeePerGas :: int
  tx_chainId :: "int option"
  tx_signature :: "string option"

record FeeData =
  fee_maxFeePerGas :: "int option"
  fee_maxPriorityFeePerGas :: "int option"

record gas_prices =
  gp_maxFeePerGas :: string
  gp_maxPriorityFeePerGas :: string

record receipt =
  rc_hash :: string
  rc_blockNumber :: int
  rc_blockHash :: string
  rc_status :: "int option"
  rc_gasUsed :: int
  rc_gasPrice :: "int option"
  rc_from :: string
  rc_to :: "string option"
  rc_value :: "int option"

section \<open>The external services\<close>

text \<open>
  Every network request the backend makes is recorded as a \<open>call\<close>, in order. \<open>Sleep\<close> is
  the timer between two polls.
\<close>

datatype call =
    DbSelectUserWallet string
  | ParaGetWallet string
  | ParaSignRaw string string
  | RpcGetBalance string
  | RpcGetTransactionCount string
  | RpcGetFeeData
  | RpcBroadcastTransaction string
  | RpcWaitForTransaction string int
  | Sleep int

fun isChainRpc :: "call \<Rightarrow> bool" where
  "isChainRpc (RpcGetBalance _) = True"
| "isChainRpc (RpcGetTransactionCount _) = True"
| "isChainRpc RpcGetFeeData = True"
| "isChainRpc (RpcBroadcastTransaction _) = True"
| "isChainRpc (RpcWaitForTransaction _ _) = True"
| "isChainRpc _ = False"



datatype db_result = Row UserWallet | DbError string string

text \<open>
  What the outside answers. The functions of the ethers library (\<open>getAddress\<close>,
  \<open>parseEther\<close>, \<open>serializeTransaction\<close>), the Supabase client, the Para HTTP client and
  the JSON-RPC provider are not part of the repository: they are parameters. \<open>Inl m\<close> is
  a throw whose message (after the \<open>error.response?.data?.message || error.message\<close> of
  the catching code) is \<open>m\<close>. The wallet of the custody provider changes over time, so
  its answer depends on how many fetches came before. \<open>ethereum_chainId\<close> is
  \<open>config.ethereum.chainId\<close>, read once when the process starts. What the name
  \<open>serializeTransaction\<close> resolves to in the module as it is shipped is said with the
  concrete world below.
\<close>

record world =
  ethers_getAddress :: "string \<Rightarrow> string + string"
  ethers_parseEther :: "string \<Rightarrow> string + int"
  ethers_serializeTransaction :: "transaction \<Rightarrow> string + string"
  supabase_single :: "string \<Rightarrow> db_result"
  paraClient_getWallet :: "nat \<Rightarrow> string \<Rightarrow> string + ParaWallet"
  paraClient_signRaw :: "string \<Rightarrow> string \<Rightarrow> string + ParaSignResponse"
  provider_getBalance :: "string \<Rightarrow> string + int"
  provider_getTransactionCount :: "string \<Rightarrow> string + int"
  provider_getFeeData :: "string + FeeData"
  provider_broadcastTransaction :: "string \<Rightarrow> string + string"
  provider_waitForTransaction :: "string \<Rightarrow> int \<Rightarrow> string + receipt option"
  ethereum_chainId :: "int option"

text \<open>An asynchronous computation: its outcome and the calls it made.\<close>

type_synonym 'a io = "(string + 'a) \<times> call list"

definition ret :: "'a \<Rightarrow> 'a io" where
  "ret x = (Inr x, [])"

definition throw :: "string \<Rightarrow> 'a io" where
  "throw m = (Inl m, [])"

definition lift :: "string + 'a \<Rightarrow> 'a io" where
  \<comment> \<open>a synchronous library call, which may throw\<close>
  "lift r = (r, [])"

definition request :: "call \<Rightarrow> string + 'a \<Rightarrow> 'a io" where
  \<comment> \<open>a network request and its answer\<close>
  "request c r = (r, [c])"

definition await :: "'a io \<Rightarrow> ('a \<Rightarrow> 'b io) \<Rightarrow> 'b io" where
  "await m f =
     (case m of
        (Inl e, t) \<Rightarrow> (Inl e, t)
      | (Inr x, t) \<Rightarrow> (case f x of (r, t') \<Rightarrow> (r, t @ t')))"

definition rethrow :: "string \<Rightarrow> 'a io \<Rightarrow> 'a io" where
  \<comment> \<open>\<open>try { m } catch (error) { throw new Error(prefix + error.message) }\<close>\<close>
  "rethrow prefix m = (case m of (Inl e, t) \<Rightarrow> (Inl (prefix @ e), t) | (Inr x, t) \<Rightarrow> (Inr x, t))"

section \<open>Address book (src/services/database.ts)\<close>

definition getUserWallet :: "world \<Rightarrow> string \<Rightarrow> UserWallet option io" where
  "getUserWallet w supabaseId =
     (case supabase_single w supabaseId of
        DbError code message \<Rightarrow>
          if code = ''PGRST116'' then request (DbSelectUserWallet supabaseId) (Inr None)
          else request (DbSelectUserWallet supabaseId)
                 (Inl (''Failed to fetch user wallet: '' @ message))
      | Row data \<Rightarrow> request (DbSelectUserWallet supabaseId) (Inr (Some data)))"

section \<open>Signer proxy (paraService)\<close>

definition getWallet :: "world \<Rightarrow> nat \<Rightarrow> string \<Rightarrow> ParaWallet io" where
  \<comment> \<open>the \<open>nat\<close> is the number of fetches made before this one\<close>
  "getWallet w k walletId =
     rethrow (''Failed to fetch wallet '' @ walletId @ '': '')
       (request (ParaGetWallet walletId) (paraClient_getWallet w k walletId))"





definition signRaw :: "world \<Rightarrow> string \<Rightarrow> string \<Rightarrow> ParaSignResponse io" where
  "signRaw w walletId dataHash =
     (let hexData = (if startsWith dataHash ''0x'' then dataHash else ''0x'' @ dataHash)
      in rethrow ''Failed to sign transaction: ''
           (request (ParaSignRaw walletId hexData) (paraClient_signRaw w walletId hexData)))"



section \<open>Chain reader and broadcaster (blockchainService)\<close>

definition getBalance :: "world \<Rightarrow> string \<Rightarrow> string io" where
  "getBalance w address =
     rethrow ''Failed to fetch balance: ''
       (await (lift (ethers_getAddress w address)) (\<lambda>checksumAddress.
        await (request (RpcGetBalance checksumAddress) (provider_getBalance w checksumAddress))
          (\<lambda>balanceWei. ret (toString balanceWei))))"

definition getBalanceInEth :: "world \<Rightarrow> string \<Rightarrow> string io" where
  \<comment> \<open>\<open>/\<close> on bigints truncates toward zero: \<open>sdiv\<close>\<close>
  "getBalanceInEth w address =
     await (getBalance w address) (\<lambda>balanceWei.
     await (lift (BigInt balanceWei)) (\<lambda>b.
       ret (toString (b sdiv 10 ^ 18))))"

definition getNonce :: "world \<Rightarrow> string \<Rightarrow> int io" where
  "getNonce w address =
     rethrow ''Failed to fetch nonce: ''
       (await (lift (ethers_getAddress w address)) (\<lambda>checksumAddress.
          request (RpcGetTransactionCount checksumAddress)
            (provider_getTransactionCount w checksumAddress)))"

definition noFee :: "int option \<Rightarrow> bool" where
  \<comment> \<open>\<open>!x\<close> on a bigint-or-null: null and \<open>0n\<close> are falsy\<close>
  "noFee x = (case x of None \<Rightarrow> True | Some v \<Rightarrow> v = 0)"

definition getGasPrices :: "world \<Rightarrow> gas_prices io" where
  "getGasPrices w =
     rethrow ''Failed to fetch gas prices: ''
       (await (request RpcGetFeeData (provider_getFeeData w)) (\<lambda>feeData.
          if noFee (fee_maxFeePerGas feeData) \<or> noFee (fee_maxPriorityFeePerGas feeData)
          then throw ''Could not fetch fee data from provider''
          else ret \<lparr> gp_maxFeePerGas = toString (the (fee_maxFeePerGas feeData)),
                     gp_maxPriorityFeePerGas = toString (the (fee_maxPriorityFeePerGas feeData)) \<rparr>))"

text \<open>
  The statements of \<open>buildUnsignedTransaction\<close> that come before the serializer is called:
  the two checksum conversions, the nonce and fee lookups, the gas values, and the object
  literal \<open>transaction\<close>, which is the result. \<open>buildUnsignedTransaction\<close> itself follows as
  the source has it; that it is this object handed to the serializer is proved below
  (\<open>buildUnsignedTransaction_object\<close>).
\<close>

definition transactionObject ::
    "world \<Rightarrow> string \<Rightarrow> SendTransactionRequest \<Rightarrow> transaction io" where
  "transactionObject w fromAddress req =
     await (lift (ethers_getAddress w fromAddress)) (\<lambda>checksumFrom.
     await (lift (ethers_getAddress w (req_to req))) (\<lambda>checksumTo.
     await (getNonce w checksumFrom) (\<lambda>nonce.
     await (getGasPrices w) (\<lambda>gasPrices.
     await (lift (if \<not> falsy (req_gasLimit req) then BigInt (the (req_gasLimit req))
                  else Inr 21000)) (\<lambda>gasLimit.
     await (lift (if \<not> falsy (req_maxFeePerGas req) then BigInt (the (req_maxFeePerGas req))
                  else BigInt (gp_maxFeePerGas gasPrices))) (\<lambda>maxFeePerGas.
     await (lift (if \<not> falsy (req_maxPriorityFeePerGas req)
                  then BigInt (the (req_maxPriorityFeePerGas req))
                  else BigInt (gp_maxPriorityFeePerGas gasPrices))) (\<lambda>maxPriorityFeePerGas.
     await (lift (ethers_parseEther w (req_amount req))) (\<lambda>val.
       ret \<lparr> tx_type = 2, tx_to = checksumTo, tx_from = checksumFrom, tx_value = val,
             tx_data = ''0x'', tx_gasLimit = gasLimit, tx_nonce = nonce,
             tx_maxFeePerGas = maxFeePerGas,
             tx_maxPriorityFeePerGas = maxPriorityFeePerGas,
             tx_chainId = ethereum_chainId w, tx_signature = None \<rparr>))))))))"

definition buildUnsignedTransaction ::
    "world \<Rightarrow> string \<Rightarrow> SendTransactionRequest \<Rightarrow> (transaction \<times> string) io" where
  "buildUnsignedTransaction w fromAddress req =
     rethrow ''Failed to build transaction: ''
       (await (lift (ethers_getAddress w fromAddress)) (\<lambda>checksumFrom.
        await (lift (ethers_getAddress w (req_to req))) (\<lambda>checksumTo.
        await (getNonce w checksumFrom) (\<lambda>nonce.
        await (getGasPrices w) (\<lambda>gasPrices.
        await (lift (if \<not> falsy (req_gasLimit req) then BigInt (the (req_gasLimit req))
                     else Inr 21000)) (\<lambda>gasLimit.
        await (lift (if \<not> falsy (req_maxFeePerGas req) then BigInt (the (req_maxFeePerGas req))
                     else BigInt (gp_maxFeePerGas gasPrices))) (\<lambda>maxFeePerGas.
        await (lift (if \<not> falsy (req_maxPriorityFeePerGas req)
                     then BigInt (the (req_maxPriorityFeePerGas req))
                     else BigInt (gp_maxPriorityFeePerGas gasPrices))) (\<lambda>maxPriorityFeePerGas.
        await (lift (ethers_parseEther w (req_amount req))) (\<lambda>val.
          let transaction =
                \<lparr> tx_type = 2, tx_to = checksumTo, tx_from = checksumFrom, tx_value = val,
                  tx_data = ''0x'', tx_gasLimit = gasLimit, tx_nonce = nonce,
                  tx_maxFeePerGas = maxFeePerGas,
                  tx_maxPriorityFeePerGas = maxPriorityFeePerGas,
                  tx_chainId = ethereum_chainId w, tx_signature = None \<rparr>
          in await (lift (ethers_serializeTransaction w transaction)) (\<lambda>serialized.
               ret (transaction, serialized)))))))))))"

definition broadcastTransaction :: "world \<Rightarrow> string \<Rightarrow> string io" where
  "broadcastTransaction w signedTransaction =
     rethrow ''Failed to broadcast transaction: ''
       (request (RpcBroadcastTransaction signedTransaction)
          (provider_broadcastTransaction w signedTransaction))"

definition withSignature :: "transaction \<Rightarrow> string \<Rightarrow> transaction" where
  \<comment> \<open>\<open>{ ...transaction, signature: cleanSig }\<close>\<close>
  "withSignature transaction signature =
     (let cleanSig = (if startsWith signature ''0x'' then signature else ''0x'' @ signature)
      in transaction \<lparr> tx_signature := Some cleanSig \<rparr>)"

definition serializeWithSignature :: "world \<Rightarrow> transaction \<Rightarrow> string \<Rightarrow> string + string" where
  "serializeWithSignature w transaction signature =
     ethers_serializeTransaction w (withSignature transaction signature)"

definition waitForTransaction :: "world \<Rightarrow> string \<Rightarrow> int \<Rightarrow> receipt option io" where
  "waitForTransaction w txHash confirmations =
     rethrow ''Failed to wait for transaction: ''
       (request (RpcWaitForTransaction txHash confirmations)
          (provider_waitForTransaction w txHash confirmations))"

section \<open>HTTP surface (src/routes)\<close>

record send_body =
  sb_transactionHash :: string
  sb_status :: string
  sb_from :: string
  sb_to :: string
  sb_value :: string
  sb_message :: string

record tx_body =
  tb_transactionHash :: string
  tb_blockNumber :: int
  tb_blockHash :: string
  tb_status :: string
  tb_gasUsed :: string
  tb_gasPrice :: "string option"
  tb_from :: string
  tb_to :: "string option"
  tb_value :: string

record balance_body =
  bal_wei :: string
  bal_eth :: string

record wallet_body =
  wb_id :: string
  wb_type :: string
  wb_status :: string
  wb_address :: "string option"
  wb_publicKey :: "string option"
  wb_balance :: "balance_body option"
  wb_createdAt :: string
  wb_message :: string

datatype body =
    ErrorBody string string
  | SendBody send_body
  | TxBody tx_body
  | WalletBody wallet_body

record response =
  http_status :: nat
  http_body :: body

definition json :: "nat \<Rightarrow> body \<Rightarrow> response io" where
  \<comment> \<open>\<open>return res.status(code).json(b)\<close>\<close>
  "json code b = ret \<lparr> http_status = code, http_body = b \<rparr>"

definition handler :: "string \<Rightarrow> response io \<Rightarrow> response \<times> call list" where
  \<comment> \<open>the outer \<open>try\<close>/\<open>catch\<close> of a route: a throw becomes a 500\<close>
  "handler errorName m =
     (case m of
        (Inl message, t) \<Rightarrow> (\<lparr> http_status = 500, http_body = ErrorBody errorName message \<rparr>, t)
      | (Inr r, t) \<Rightarrow> (r, t))"

definition missingFieldsMessage :: string where
  \<comment> \<open>\<open>CHR 0x27\<close> is the single quote around the field names\<close>
  "missingFieldsMessage =
     ''Missing required fields: '' @ [CHR 0x27] @ ''to'' @ [CHR 0x27] @ '' and '' @
     [CHR 0x27] @ ''amount'' @ [CHR 0x27]"

definition invalidAddressMessage :: string where
  "invalidAddressMessage =
     ''Invalid Ethereum address for '' @ [CHR 0x27] @ ''to'' @ [CHR 0x27] @ '' field''"

definition send :: "world \<Rightarrow> string option \<Rightarrow> SendTransactionRequest \<Rightarrow> response \<times> call list" where
  \<comment> \<open>\<open>POST /transaction/send\<close>; \<open>userId\<close> is \<open>req.user?.userId\<close>\<close>
  "send w userId sendRequest =
     handler ''Transaction Failed''
       (if falsy userId then
          json 401 (ErrorBody ''Unauthorized'' ''User ID not found in token'')
        else if req_to sendRequest = [] \<or> req_amount sendRequest = [] then
          json 400 (ErrorBody ''Bad Request'' missingFieldsMessage)
        else case ethers_getAddress w (req_to sendRequest) of
          Inl _ \<Rightarrow> json 400 (ErrorBody ''Bad Request'' invalidAddressMessage)
        | Inr _ \<Rightarrow>
            await (getUserWallet w (the userId)) (\<lambda>userWallet.
              case userWallet of
                None \<Rightarrow> json 404 (ErrorBody ''Not Found'' ''Wallet not found for this user'')
              | Some uw \<Rightarrow>
                  await (getWallet w 0 (para_wallet_id uw)) (\<lambda>paraWallet.
                    if pw_status paraWallet \<noteq> ''ready'' \<or> falsy (pw_address paraWallet) then
                      json 400 (ErrorBody ''Wallet Not Ready''
                        ''Wallet is still being created. Please try again later.'')
                    else
                      await (buildUnsignedTransaction w (the (pw_address paraWallet)) sendRequest)
                        (\<lambda>(transaction, dataHash).
                      await (signRaw w (para_wallet_id uw) dataHash) (\<lambda>signResponse.
                      await (lift (serializeWithSignature w transaction
                                     (sig_signature signResponse))) (\<lambda>signedTx.
                      await (broadcastTransaction w signedTx) (\<lambda>txHash.
                        json 201 (SendBody
                          \<lparr> sb_transactionHash = txHash, sb_status = ''pending'',
                            sb_from = the (pw_address paraWallet), sb_to = req_to sendRequest,
                            sb_value = req_amount sendRequest,
                            sb_message = ''Transaction broadcasted. Monitor the hash on Sepolia block explorer.'' \<rparr>))))))))"

definition receiptBody :: "receipt \<Rightarrow> tx_body" where
  "receiptBody r =
     \<lparr> tb_transactionHash = rc_hash r,
       tb_blockNumber = rc_blockNumber r,
       tb_blockHash = rc_blockHash r,
       tb_status = (if rc_status r = Some 1 then ''success'' else ''failed''),
       tb_gasUsed = toString (rc_gasUsed r),
       tb_gasPrice = map_option toString (rc_gasPrice r),
       tb_from = rc_from r,
       tb_to = rc_to r,
       tb_value = orElse (map_option toString (rc_value r)) ''0'' \<rparr>"

definition transactionStatus :: "world \<Rightarrow> string \<Rightarrow> response \<times> call list" where
  \<comment> \<open>\<open>GET /transaction/:txHash\<close>; the inner \<open>catch\<close> turns a throw of the query into a 404\<close>
  "transactionStatus w txHash =
     handler ''Internal Server Error''
       (if \<not> startsWith txHash ''0x'' \<or> length txHash \<noteq> 66 then
          json 400 (ErrorBody ''Bad Request'' ''Invalid transaction hash format'')
        else case waitForTransaction w txHash 0 of
          (Inl _, t) \<Rightarrow>
            (Inr \<lparr> http_status = 404,
                   http_body = ErrorBody ''Not Found'' ''Transaction not yet mined or invalid hash'' \<rparr>, t)
        | (Inr None, t) \<Rightarrow>
            (Inr \<lparr> http_status = 404,
                   http_body = ErrorBody ''Not Found'' ''Transaction not found or not yet mined'' \<rparr>, t)
        | (Inr (Some receipt), t) \<Rightarrow>
            (Inr \<lparr> http_status = 200, http_body = TxBody (receiptBody receipt) \<rparr>, t))"

definition walletDetails :: "world \<Rightarrow> string option \<Rightarrow> response \<times> call list" where
  \<comment> \<open>\<open>GET /wallet\<close>\<close>
  "walletDetails w userId =
     handler ''Internal Server Error''
       (if falsy userId then
          json 401 (ErrorBody ''Unauthorized'' ''User ID not found in token'')
        else
          await (getUserWallet w (the userId)) (\<lambda>userWallet.
            case userWallet of
              None \<Rightarrow> json 404 (ErrorBody ''Not Found'' ''Wallet not found for this user'')
            | Some uw \<Rightarrow>
                await (getWallet w 0 (para_wallet_id uw)) (\<lambda>paraWallet.
                await (if pw_status paraWallet = ''ready'' \<and> \<not> falsy (pw_address paraWallet) then
                         await (getBalance w (the (pw_address paraWallet))) (\<lambda>balanceWei.
                         await (getBalanceInEth w (the (pw_address paraWallet))) (\<lambda>balanceEth.
                           ret (Some \<lparr> bal_wei = balanceWei, bal_eth = balanceEth \<rparr>)))
                       else ret None) (\<lambda>balance.
                  json 200 (WalletBody
                    \<lparr> wb_id = pw_id paraWallet, wb_type = pw_type paraWallet,
                      wb_status = pw_status paraWallet,
                      wb_address = (if falsy (pw_address paraWallet) then None
                                    else pw_address paraWallet),
                      wb_publicKey = (if falsy (pw_publicKey paraWallet) then None
                                      else pw_publicKey paraWallet),
                      wb_balance = balance,
                      wb_createdAt = pw_createdAt paraWallet,
                      wb_message =
                        (if pw_status paraWallet = ''creating''
                         then ''Wallet is still being created. MPC key generation in progress.''
                         else ''Wallet is ready for transactions!'') \<rparr>)))))"

definition notReadyResponse :: response where
  \<comment> \<open>the answer of the readiness check of \<open>send\<close>\<close>
  "notReadyResponse =
     \<lparr> http_status = 400,
       http_body = ErrorBody ''Wallet Not Ready''
         ''Wallet is still being created. Please try again later.'' \<rparr>"

section \<open>A concrete world\<close>

text \<open>
  One fixed behaviour of the outside, to run the handlers on. The stand-ins for the
  library are kept simple: \<open>getAddress\<close> accepts \<open>0x\<close> and forty hex digits and returns
  the string as it is (the two addresses used below have no letters, so the checksum
  casing of ethers leaves them as they are), \<open>parseEther\<close> converts a decimal string with
  at most eighteen fractional digits exactly. The general theorems do not depend on them.

  The serializer is the one the shipped module gets. \<open>blockchainService\<close> imports
  \<open>serializeTransaction\<close> from ethers next to \<open>JsonRpcProvider\<close>, \<open>parseEther\<close> and
  \<open>toBeHex\<close>, which ethers exports under these names from version 6 on, and version 6
  exports no \<open>serializeTransaction\<close>: the imported binding is \<open>undefined\<close>, and each call
  of it, in \<open>buildUnsignedTransaction\<close> and in \<open>serializeWithSignature\<close>, throws a
  TypeError.
\<close>

definition isHexString :: "string \<Rightarrow> bool" where
  "isHexString s = (startsWith s ''0x'' \<and> list_all (isDigit 16) (drop 2 s))"

definition demoGetAddress :: "string \<Rightarrow> string + string" where
  "demoGetAddress s = (if length s = 42 \<and> isHexString s then Inr s else Inl ''invalid address'')"

definition demoParseEther :: "string \<Rightarrow> string + int" where
  "demoParseEther s =
     (let neg = (s \<noteq> [] \<and> hd s = CHR ''-'');
          u = (if neg then tl s else s);
          whole = takeWhile (\<lambda>c. c \<noteq> CHR ''.'') u;
          frac = drop 1 (dropWhile (\<lambda>c. c \<noteq> CHR ''.'') u)
      in if whole @ frac \<noteq> [] \<and> list_all (isDigit 10) (whole @ frac) \<and> length frac \<le> 18
         then Inr ((if neg then - 1 else 1) *
                   digitsValue 10 (whole @ frac @ replicate (18 - length frac) CHR ''0''))
         else Inl ''invalid FixedNumber string value'')"

definition undefinedSerializeTransaction :: "transaction \<Rightarrow> string + string" where
  "undefinedSerializeTransaction t = Inl ''serializeTransaction is not a function''"

definition demoSender :: string where
  "demoSender = ''0x1234567890123456789012345678901234567890''"

definition demoRecipient :: string where
  "demoRecipient = ''0x9876543210987654321098765432109876543210''"

definition demoUserWallet :: UserWallet where
  "demoUserWallet =
     \<lparr> supabase_id = ''user-1'', para_wallet_id = ''wal_1'', wallet_address = None,
       created_at = ''2024-01-01T00:00:00Z'', updated_at = ''2024-01-01T00:00:00Z'' \<rparr>"

definition demoWallet :: "string \<Rightarrow> string option \<Rightarrow> ParaWallet" where
  "demoWallet st addr =
     \<lparr> pw_id = ''wal_1'', pw_type = ''EVM'', pw_status = st, pw_address = addr,
       pw_publicKey = None, pw_createdAt = ''2024-01-01T00:00:00Z'', pw_scheme = ''DKLS'',
       pw_userIdentifier = ''user-1'', pw_userIdentifierType = ''CUSTOM_ID'' \<rparr>"

definition minedHash :: string where
  "minedHash = ''0x'' @ replicate 64 CHR ''a''"

definition demoReceipt :: "int \<Rightarrow> receipt" where
  "demoReceipt code =
     \<lparr> rc_hash = minedHash, rc_blockNumber = 4567890, rc_blockHash = ''0x'' @ replicate 64 CHR ''f'',
       rc_status = Some code, rc_gasUsed = 21000, rc_gasPrice = Some 50000000000,
       rc_from = demoSender, rc_to = Some demoRecipient, rc_value = None \<rparr>"

definition balanceOf :: "int \<Rightarrow> string \<Rightarrow> string + int" where
  \<comment> \<open>a chain on which every address holds \<open>b\<close> wei\<close>
  "balanceOf b a = Inr b"

definition demoWorld :: world where
  "demoWorld =
     \<lparr> ethers_getAddress = demoGetAddress,
       ethers_parseEther = demoParseEther,
       ethers_serializeTransaction = undefinedSerializeTransaction,
       supabase_single = (\<lambda>u. if u = ''user-1'' then Row demoUserWallet
                                else DbError ''PGRST116'' ''no rows returned''),
       paraClient_getWallet = (\<lambda>k i. if i = ''wal_1'' then Inr (demoWallet ''ready'' (Some demoSender))
                                       else Inl ''Request failed with status code 404''),
       paraClient_signRaw = (\<lambda>i d. Inr \<lparr> sig_signature = ''c0ffee'', sig_data = d \<rparr>),
       provider_getBalance = balanceOf 1500000000000000000,
       provider_getTransactionCount = (\<lambda>a. Inr 7),
       provider_getFeeData = Inr \<lparr> fee_maxFeePerGas = Some 50000000000,
                                   fee_maxPriorityFeePerGas = Some 2000000000 \<rparr>,
       provider_broadcastTransaction = (\<lambda>s. Inr minedHash),
       provider_waitForTransaction =
         (\<lambda>h c. if \<not> isHexString h then Inl ''invalid hash''
                 else if h = minedHash then Inr (Some (demoReceipt 1)) else Inr None),
       ethereum_chainId = Some 11155111 \<rparr>"

definition demoRequest :: "string \<Rightarrow> SendTransactionRequest" where
  "demoRequest amount =
     \<lparr> req_to = demoRecipient, req_amount = amount, req_gasLimit = None,
       req_maxFeePerGas = None, req_maxPriorityFeePerGas = None \<rparr>"

text \<open>The custody wallet that is still being created for the first \<open>n\<close> fetches.\<close>

definition readyAfter :: "nat \<Rightarrow> nat \<Rightarrow> string \<Rightarrow> string + ParaWallet" where
  "readyAfter n k i =
     (if k < n then Inr (demoWallet ''creating'' None) else Inr (demoWallet ''ready'' (Some demoSender)))"

text \<open>The object \<open>buildUnsignedTransaction\<close> constructs for a request for 0.001 ETH in this
  world, before it calls the serializer.\<close>

definition demoTransaction :: transaction where
  "demoTransaction =
     \<lparr> tx_type = 2, tx_to = demoRecipient, tx_from = demoSender, tx_value = 1000000000000000,
       tx_data = ''0x'', tx_gasLimit = 21000, tx_nonce = 7, tx_maxFeePerGas = 50000000000,
       tx_maxPriorityFeePerGas = 2000000000, tx_chainId = Some 11155111,
       tx_signature = None \<rparr>"


section \<open>Properties\<close>

subsection \<open>Decimal strings: \<open>toString\<close> and \<open>BigInt\<close> are inverse\<close>

lemma digit_char:
  assumes "0 \<le> d" "d < 10"
  shows "digitVal (char_of (48 + (d::int))) = Some (nat d)"
proof -
  have "char_of (int (nat (48 + d))) = char_of (nat (48 + d))"
    by (rule char_of_nat)
  with assms have c: "char_of (48 + d) = char_of (nat (48 + d))"
    by simp
  from assms have m: "nat (48 + d) mod 256 = nat (48 + d)"
    by simp
  from assms show ?thesis
    by (simp add: digitVal_def c m Let_def) arith
qed

lemma digit_char_isDigit: "0 \<le> d \<Longrightarrow> d < 10 \<Longrightarrow> isDigit 10 (char_of (48 + (d::int)))"
  by (simp add: isDigit_def digit_char)

lemma digitsValue_snoc:
  "digitsValue r (ds @ [c]) = digitsValue r ds * int r + int (the (digitVal c))"
  by (simp add: digitsValue_def)

lemma digits_ok:
  "0 \<le> n \<Longrightarrow> digits n \<noteq> [] \<and> list_all (isDigit 10) (digits n) \<and> digitsValue 10 (digits n) = n"
proof (induction n rule: digits.induct)
  case (1 n)
  show ?case
  proof (cases "n < 10")
    case True
    with "1.prems" show ?thesis
      by (simp add: digits.simps [of n] digit_char digit_char_isDigit digitsValue_def)
  next
    case False
    with "1.prems" have ih: "digits (n div 10) \<noteq> [] \<and> list_all (isDigit 10) (digits (n div 10))
        \<and> digitsValue 10 (digits (n div 10)) = n div 10"
      using "1.IH" by simp
    have d: "digitVal (char_of (48 + n mod 10)) = Some (nat (n mod 10))"
      by (rule digit_char) simp_all
    have d': "isDigit 10 (char_of (48 + n mod 10))"
      by (rule digit_char_isDigit) simp_all
    from False have unf: "digits n = digits (n div 10) @ [char_of (48 + n mod 10)]"
      by (subst digits.simps) simp
    show ?thesis
      using ih d d' by (simp add: unf digitsValue_snoc)
  qed
qed

lemma digit_not_white: "isDigit 10 c \<Longrightarrow> \<not> isWhiteSpace c"
  by (auto simp: isDigit_def isWhiteSpace_def digitVal_def)

lemma trim_id: "s \<noteq> [] \<Longrightarrow> \<not> isWhiteSpace (hd s) \<Longrightarrow> \<not> isWhiteSpace (last s) \<Longrightarrow> trim s = s"
proof -
  assume a: "s \<noteq> []" "\<not> isWhiteSpace (hd s)" "\<not> isWhiteSpace (last s)"
  then have 1: "dropWhile isWhiteSpace s = s" by (cases s) auto
  from a have 2: "dropWhile isWhiteSpace (rev s) = rev s"
    by (cases "rev s") (auto simp: last_rev [symmetric] hd_rev)
  show ?thesis by (simp add: trim_def 1 2)
qed

lemma all_digits_no_prefix:
  "list_all (isDigit 10) s \<Longrightarrow> \<not> isDigit 10 c \<Longrightarrow> \<not> startsWith s [d, c]"
  by (cases s; cases "tl s") (auto simp: startsWith_def)


lemma not_decimal:
  "\<not> isDigit 10 CHR ''x''" "\<not> isDigit 10 CHR ''X''" "\<not> isDigit 10 CHR ''o''"
  "\<not> isDigit 10 CHR ''O''" "\<not> isDigit 10 CHR ''b''" "\<not> isDigit 10 CHR ''B''"
  "\<not> isDigit 10 CHR ''-''" "\<not> isDigit 10 CHR ''+''"
  by (simp_all add: isDigit_def digitVal_def)

lemma decimal_no_radix_prefix:
  assumes "list_all (isDigit 10) s"
  shows "\<not> startsWith s ''0x''" "\<not> startsWith s ''0X''" "\<not> startsWith s ''0o''"
    "\<not> startsWith s ''0O''" "\<not> startsWith s ''0b''" "\<not> startsWith s ''0B''"
  using assms by (simp_all add: all_digits_no_prefix not_decimal)

lemma decimal_hd_last:
  assumes "s \<noteq> []" "list_all (isDigit 10) s"
  shows "isDigit 10 (hd s)" "isDigit 10 (last s)"
  using assms by (auto simp: list_all_iff)

lemma BigInt_decimal:
  assumes "s \<noteq> []" "list_all (isDigit 10) s"
  shows "BigInt s = Inr (digitsValue 10 s)"
proof -
  have t: "trim s = s"
    using assms by (intro trim_id digit_not_white decimal_hd_last)
  have h: "hd s \<noteq> CHR ''-''" "hd s \<noteq> CHR ''+''"
    using decimal_hd_last(1) [OF assms] not_decimal by auto
  show ?thesis
    using assms h by (simp add: BigInt_def t decimal_no_radix_prefix parseDigits_def)
qed

lemma BigInt_negative_decimal:
  assumes "s \<noteq> []" "list_all (isDigit 10) s"
  shows "BigInt (CHR ''-'' # s) = Inr (- digitsValue 10 s)"
proof -
  have w: "\<not> isWhiteSpace CHR ''-''"
    by (simp add: isWhiteSpace_def)
  have l: "\<not> isWhiteSpace (last (CHR ''-'' # s))"
    using assms by (simp add: digit_not_white decimal_hd_last)
  have t: "trim (CHR ''-'' # s) = CHR ''-'' # s"
    using w l by (intro trim_id) simp_all
  show ?thesis
    using assms by (simp add: BigInt_def t startsWith_def parseDigits_def)
qed

lemma BigInt_toString: "BigInt (toString i) = Inr i"
proof (cases "i < 0")
  case True
  then have "0 \<le> - i" by simp
  from digits_ok [OF this] True show ?thesis
    by (simp add: toString_def BigInt_negative_decimal)
next
  case False
  then have "0 \<le> i" by simp
  from digits_ok [OF this] False show ?thesis
    by (simp add: toString_def BigInt_decimal)
qed


subsection \<open>Running asynchronous computations\<close>

lemma await_Inl: "await (Inl e, t) f = (Inl e, t)"
  by (simp add: await_def)

lemma await_Inr: "await (Inr x, t) f = (fst (f x), t @ snd (f x))"
  by (simp add: await_def split: prod.splits)

lemma rethrow_Inl: "rethrow p (Inl e, t) = (Inl (p @ e), t)"
  by (simp add: rethrow_def)

lemma rethrow_Inr: "rethrow p (Inr x, t) = (Inr x, t)"
  by (simp add: rethrow_def)

lemmas io_simps = await_Inl await_Inr rethrow_Inl rethrow_Inr ret_def throw_def lift_def
  request_def json_def

lemma getBalance_ok:
  assumes "ethers_getAddress w address = Inr a" "provider_getBalance w a = Inr b"
  shows "getBalance w address = (Inr (toString b), [RpcGetBalance a])"
  using assms by (simp add: getBalance_def io_simps)

lemma getBalanceInEth_ok:
  assumes "ethers_getAddress w address = Inr a" "provider_getBalance w a = Inr b"
  shows "getBalanceInEth w address = (Inr (toString (b sdiv 10 ^ 18)), [RpcGetBalance a])"
  using assms by (simp add: getBalanceInEth_def getBalance_ok BigInt_toString io_simps)

lemma getUserWallet_Row:
  "supabase_single w u = Row uw \<Longrightarrow> getUserWallet w u = (Inr (Some uw), [DbSelectUserWallet u])"
  by (simp add: getUserWallet_def io_simps)

lemma getWallet_ok:
  "paraClient_getWallet w k i = Inr pw \<Longrightarrow> getWallet w k i = (Inr pw, [ParaGetWallet i])"
  by (simp add: getWallet_def io_simps)

subsection \<open>The balance in ETH\<close>

lemma toString_0: "toString 0 = ''0''"
  by code_simp

lemma sdiv_small:
  "0 \<le> b \<Longrightarrow> b < 1000000000000000000 \<Longrightarrow> b sdiv 1000000000000000000 = (0::int)"
  by (simp add: signed_divide_int_def)

text \<open>
  Claim C10. The \<open>eth\<close> balance of the wallet-details endpoint is the wei balance divided
  by \<open>10^18\<close> with the fraction discarded: when the wallet is ready and the chain reports
  the balance \<open>b\<close>, the answer is 200 with \<open>balance.wei\<close> the decimal string of \<open>b\<close> and
  \<open>balance.eth\<close> the decimal string of \<open>b\<close> divided by \<open>10^18\<close> truncating toward zero; a
  balance below \<open>10^18\<close> wei is reported as \<open>"0"\<close>, and 1500000000000000000 wei as
  \<open>"1"\<close>.
\<close>

theorem wallet_details_eth_truncated:
  assumes "\<not> falsy userId"
    and "supabase_single w (the userId) = Row uw"
    and "paraClient_getWallet w 0 (para_wallet_id uw) = Inr pw"
    and "pw_status pw = ''ready''" and "pw_address pw = Some addr" and "addr \<noteq> []"
    and "ethers_getAddress w addr = Inr a" and "provider_getBalance w a = Inr b"
  shows "\<exists>wb. fst (walletDetails w userId) = \<lparr> http_status = 200, http_body = WalletBody wb \<rparr>
           \<and> map_option bal_wei (wb_balance wb) = Some (toString b)
           \<and> map_option bal_eth (wb_balance wb) = Some (toString (b sdiv 10 ^ 18))
           \<and> (0 \<le> b \<and> b < 10 ^ 18 \<longrightarrow> map_option bal_eth (wb_balance wb) = Some ''0'')
           \<and> (b = 1500000000000000000 \<longrightarrow> map_option bal_eth (wb_balance wb) = Some ''1'')"
proof -
  have one: "toString (1500000000000000000 sdiv 10 ^ 18) = ''1''"
    by code_simp
  have f: "\<not> falsy (pw_address pw)"
    using assms(5,6) by (simp add: falsy_def)
  show ?thesis
    using assms f one
    by (simp add: walletDetails_def handler_def getUserWallet_Row getWallet_ok getBalance_ok
        getBalanceInEth_ok io_simps sdiv_small toString_0)
qed


subsection \<open>Inverting a successful run\<close>

lemma await_eq_Inr:
  "await m f = (Inr y, t) \<longleftrightarrow> (\<exists>x t1 t2. m = (Inr x, t1) \<and> f x = (Inr y, t2) \<and> t = t1 @ t2)"
  by (cases m; cases "fst m") (auto simp: await_def split: prod.splits)

lemma rethrow_eq_Inr: "rethrow p m = (Inr y, t) \<longleftrightarrow> m = (Inr y, t)"
  by (cases m; cases "fst m") (auto simp: rethrow_def)

lemma lift_eq_Inr: "lift r = (Inr x, t) \<longleftrightarrow> r = Inr x \<and> t = []"
  by (auto simp: lift_def)

lemma request_eq_Inr: "request c r = (Inr x, t) \<longleftrightarrow> r = Inr x \<and> t = [c]"
  by (auto simp: request_def)

lemma ret_eq_Inr: "ret x = (Inr y, t) \<longleftrightarrow> y = x \<and> t = []"
  by (auto simp: ret_def)

lemma throw_neq_Inr: "throw e \<noteq> (Inr y, t)"
  by (simp add: throw_def)

lemmas io_inv = await_eq_Inr rethrow_eq_Inr lift_eq_Inr request_eq_Inr ret_eq_Inr throw_neq_Inr

lemma getNonce_eq_Inr:
  "getNonce w a = (Inr n, t) \<longleftrightarrow>
     (\<exists>c. ethers_getAddress w a = Inr c \<and> provider_getTransactionCount w c = Inr n
          \<and> t = [RpcGetTransactionCount c])"
  by (auto simp: getNonce_def io_inv)

lemma getGasPrices_eq_Inr:
  "getGasPrices w = (Inr g, t) \<longleftrightarrow>
     (\<exists>fd. provider_getFeeData w = Inr fd
          \<and> \<not> noFee (fee_maxFeePerGas fd) \<and> \<not> noFee (fee_maxPriorityFeePerGas fd)
          \<and> g = \<lparr> gp_maxFeePerGas = toString (the (fee_maxFeePerGas fd)),
                   gp_maxPriorityFeePerGas = toString (the (fee_maxPriorityFeePerGas fd)) \<rparr>
          \<and> t = [RpcGetFeeData])"
  by (auto simp: getGasPrices_def io_inv throw_def split: if_splits)

lemma awaitE:
  assumes "await m f = (Inr y, t)"
  obtains x t1 t2 where "m = (Inr x, t1)" "f x = (Inr y, t2)" "t = t1 @ t2"
  using assms by (auto simp: await_eq_Inr)

lemma transactionObject_inv:
  assumes "transactionObject w fromAddress r = (Inr tx, t)"
  shows "\<exists>cf ct cn fd.
      ethers_getAddress w fromAddress = Inr cf \<and> ethers_getAddress w (req_to r) = Inr ct
    \<and> ethers_getAddress w cf = Inr cn \<and> provider_getTransactionCount w cn = Inr (tx_nonce tx)
    \<and> provider_getFeeData w = Inr fd
    \<and> \<not> noFee (fee_maxFeePerGas fd) \<and> \<not> noFee (fee_maxPriorityFeePerGas fd)
    \<and> (if \<not> falsy (req_gasLimit r) then BigInt (the (req_gasLimit r)) else Inr 21000)
        = Inr (tx_gasLimit tx)
    \<and> (if \<not> falsy (req_maxFeePerGas r) then BigInt (the (req_maxFeePerGas r))
        else Inr (the (fee_maxFeePerGas fd))) = Inr (tx_maxFeePerGas tx)
    \<and> (if \<not> falsy (req_maxPriorityFeePerGas r) then BigInt (the (req_maxPriorityFeePerGas r))
        else Inr (the (fee_maxPriorityFeePerGas fd))) = Inr (tx_maxPriorityFeePerGas tx)
    \<and> ethers_parseEther w (req_amount r) = Inr (tx_value tx)
    \<and> tx_to tx = ct \<and> tx_from tx = cf \<and> tx_type tx = 2 \<and> tx_data tx = ''0x''
    \<and> tx_chainId tx = ethereum_chainId w \<and> tx_signature tx = None
    \<and> t = [RpcGetTransactionCount cn, RpcGetFeeData]"
  using assms
  unfolding transactionObject_def
  apply (elim awaitE)
  apply (simp only: lift_eq_Inr ret_eq_Inr getNonce_eq_Inr getGasPrices_eq_Inr)
  apply (elim exE conjE)
  apply (simp add: BigInt_toString)
  apply (auto simp: BigInt_toString split: if_splits)
  done

lemma await_assoc: "await (await m f) g = await m (\<lambda>x. await (f x) g)"
proof (cases m)
  case (Pair r t)
  show ?thesis
  proof (cases r)
    case (Inl e)
    with Pair show ?thesis by (simp add: await_Inl)
  next
    case (Inr x)
    show ?thesis
    proof (cases "f x")
      case fx: (Pair r' t')
      show ?thesis
      proof (cases r')
        case (Inl e)
        with Pair Inr fx show ?thesis by (simp add: await_Inl await_Inr)
      next
        case r': (Inr y)
        with Pair Inr fx show ?thesis by (simp add: await_Inr)
      qed
    qed
  qed
qed

lemma await_ret: "await (ret x) f = f x"
  by (simp add: ret_def await_Inr)

text \<open>
  \<open>buildUnsignedTransaction\<close> is the construction of the object followed by the call of
  the serializer.
\<close>

lemma buildUnsignedTransaction_object:
  "buildUnsignedTransaction w fromAddress r =
     rethrow ''Failed to build transaction: ''
       (await (transactionObject w fromAddress r) (\<lambda>transaction.
        await (lift (ethers_serializeTransaction w transaction)) (\<lambda>serialized.
          ret (transaction, serialized))))"
  by (simp add: buildUnsignedTransaction_def transactionObject_def await_assoc await_ret Let_def)

lemma buildUnsignedTransaction_built:
  assumes "transactionObject w fromAddress r = (Inr tx, t)"
  shows "buildUnsignedTransaction w fromAddress r =
           (case ethers_serializeTransaction w tx of
              Inl e \<Rightarrow> (Inl (''Failed to build transaction: '' @ e), t)
            | Inr h \<Rightarrow> (Inr (tx, h), t))"
  using assms by (simp add: buildUnsignedTransaction_object io_simps split: sum.splits)

lemma buildUnsignedTransaction_not_built:
  assumes "transactionObject w fromAddress r = (Inl e, t)"
  shows "buildUnsignedTransaction w fromAddress r = (Inl (''Failed to build transaction: '' @ e), t)"
  using assms by (simp add: buildUnsignedTransaction_object io_simps)

text \<open>
  With a serializer that throws on every call, \<open>buildUnsignedTransaction\<close> never returns
  a transaction, whatever the request and whatever the chain answers.
\<close>

lemma buildUnsignedTransaction_throws:
  assumes "\<forall>tx. isl (ethers_serializeTransaction w tx)"
  shows "\<exists>e. fst (buildUnsignedTransaction w fromAddress r) = Inl e"
proof (cases "transactionObject w fromAddress r")
  case (Pair res t)
  show ?thesis
  proof (cases res)
    case (Inl e)
    with Pair show ?thesis by (simp add: buildUnsignedTransaction_not_built)
  next
    case (Inr tx)
    from assms obtain e where "ethers_serializeTransaction w tx = Inl e"
      by (cases "ethers_serializeTransaction w tx") (auto dest: spec [where x = tx])
    with Pair Inr show ?thesis by (simp add: buildUnsignedTransaction_built)
  qed
qed


subsection \<open>The send operation: validation and the readiness check\<close>

lemma send_rejected_early:
  assumes "falsy userId \<or> req_to r = [] \<or> req_amount r = [] \<or> isl (ethers_getAddress w (req_to r))"
  shows "snd (send w userId r) = []"
  using assms
  by (auto simp: send_def handler_def io_simps isl_def split: sum.splits)

lemma send_not_ready_exact:
  assumes "u \<noteq> []" "req_to r \<noteq> []" "req_amount r \<noteq> []" "\<not> isl (ethers_getAddress w (req_to r))"
    and "supabase_single w u = Row uw"
    and "paraClient_getWallet w 0 (para_wallet_id uw) = Inr pw"
    and "pw_status pw \<noteq> ''ready'' \<or> falsy (pw_address pw)"
  shows "send w (Some u) r =
           (notReadyResponse, [DbSelectUserWallet u, ParaGetWallet (para_wallet_id uw)])"
  using assms
  by (auto simp: send_def handler_def io_simps getUserWallet_Row getWallet_ok falsy_def
      notReadyResponse_def isl_def split: sum.splits)

text \<open>
  Claim C1. When the user has a wallet mapping and the custody wallet is not ready (its
  status is not \<open>ready\<close>, or it has no address), \<open>send\<close> makes no chain RPC call and no
  call at all besides the database lookup and the wallet fetch; whenever the wallet is
  fetched the answer is 400 \<open>Wallet Not Ready\<close>; and for a request that passes validation
  the run is exactly: database lookup, wallet fetch, 400.
\<close>

theorem send_wallet_not_ready:
  assumes "supabase_single w u = Row uw"
    and "paraClient_getWallet w 0 (para_wallet_id uw) = Inr pw"
    and "pw_status pw \<noteq> ''ready'' \<or> falsy (pw_address pw)"
  shows "(ParaGetWallet (para_wallet_id uw) \<in> set (snd (send w (Some u) r))
            \<longrightarrow> fst (send w (Some u) r) = notReadyResponse)
       \<and> (\<forall>c \<in> set (snd (send w (Some u) r)).
             c = DbSelectUserWallet u \<or> c = ParaGetWallet (para_wallet_id uw))
       \<and> filter isChainRpc (snd (send w (Some u) r)) = []
       \<and> (u \<noteq> [] \<and> req_to r \<noteq> [] \<and> req_amount r \<noteq> []
            \<and> \<not> isl (ethers_getAddress w (req_to r))
            \<longrightarrow> send w (Some u) r =
                 (notReadyResponse, [DbSelectUserWallet u, ParaGetWallet (para_wallet_id uw)]))"
proof (cases "u \<noteq> [] \<and> req_to r \<noteq> [] \<and> req_amount r \<noteq> []
               \<and> \<not> isl (ethers_getAddress w (req_to r))")
  case True
  then have "send w (Some u) r =
      (notReadyResponse, [DbSelectUserWallet u, ParaGetWallet (para_wallet_id uw)])"
    using assms by (intro send_not_ready_exact) simp_all
  then show ?thesis by simp
next
  case False
  then have "snd (send w (Some u) r) = []"
    by (intro send_rejected_early) (auto simp: falsy_def)
  with False show ?thesis by auto
qed

text \<open>
  Claim C4. For an authenticated request whose \<open>to\<close> the address parser rejects, \<open>send\<close>
  answers 400 \<open>Bad Request\<close> and makes no call: no database lookup, no custody-provider
  call, no chain RPC.
\<close>

theorem send_malformed_address:
  assumes "\<not> falsy userId" and "ethers_getAddress w (req_to r) = Inl e"
  shows "http_status (fst (send w userId r)) = 400
       \<and> (\<exists>m. http_body (fst (send w userId r)) = ErrorBody ''Bad Request'' m)
       \<and> snd (send w userId r) = []"
  using assms by (simp add: send_def handler_def io_simps)


lemma handler_status:
  assumes "\<And>x t. m = (Inr x, t) \<Longrightarrow> http_status x = c"
  shows "http_status (fst (handler n m)) = c \<or> http_status (fst (handler n m)) = 500"
  using assms by (cases m; cases "fst m") (auto simp: handler_def)

lemma snd_handler: "snd (handler n m) = snd m"
  by (cases m; cases "fst m") (auto simp: handler_def)


lemma snd_await_Inr: "m = (Inr x, t) \<Longrightarrow> snd (await m f) = t @ snd (f x)"
  by (simp add: await_Inr)

lemma snd_await_silent:
  assumes "\<And>x. snd (f x) = []"
  shows "snd (await m f) = snd m"
proof (cases m)
  case (Pair r t)
  then show ?thesis
    using assms by (cases r) (simp_all add: await_Inl await_Inr)
qed

lemma send_ready:
  assumes "u \<noteq> []" "req_to r \<noteq> []" "req_amount r \<noteq> []"
    and "ethers_getAddress w (req_to r) = Inr c"
    and "supabase_single w u = Row uw"
    and "paraClient_getWallet w 0 (para_wallet_id uw) = Inr pw"
    and "pw_status pw = ''ready''" and "pw_address pw = Some a" and "a \<noteq> []"
  shows "send w (Some u) r =
     handler ''Transaction Failed''
       (await (Inr (), [DbSelectUserWallet u, ParaGetWallet (para_wallet_id uw)]) (\<lambda>_.
        await (buildUnsignedTransaction w a r) (\<lambda>(transaction, dataHash).
        await (signRaw w (para_wallet_id uw) dataHash) (\<lambda>signResponse.
        await (lift (serializeWithSignature w transaction (sig_signature signResponse)))
          (\<lambda>signedTx.
        await (broadcastTransaction w signedTx) (\<lambda>txHash.
          json 201 (SendBody
            \<lparr> sb_transactionHash = txHash, sb_status = ''pending'',
              sb_from = a, sb_to = req_to r, sb_value = req_amount r,
              sb_message = ''Transaction broadcasted. Monitor the hash on Sepolia block explorer.'' \<rparr>)))))))"
  using assms
  by (simp add: send_def getUserWallet_Row getWallet_ok await_Inr falsy_def)

lemma send_ready_status:
  assumes "u \<noteq> []" "req_to r \<noteq> []" "req_amount r \<noteq> []"
    and "ethers_getAddress w (req_to r) = Inr c"
    and "supabase_single w u = Row uw"
    and "paraClient_getWallet w 0 (para_wallet_id uw) = Inr pw"
    and "pw_status pw = ''ready''" and "pw_address pw = Some a" and "a \<noteq> []"
  shows "http_status (fst (send w (Some u) r)) = 201 \<or> http_status (fst (send w (Some u) r)) = 500"
  unfolding send_ready [OF assms]
  by (rule handler_status) (auto simp: io_inv json_def elim!: awaitE)

subsection \<open>The concrete world\<close>

lemma demo_addresses:
  "ethers_getAddress demoWorld demoSender = Inr demoSender"
  "ethers_getAddress demoWorld demoRecipient = Inr demoRecipient"
  "ethers_getAddress demoWorld ''not-an-address'' = Inl ''invalid address''"
  by code_simp+

lemma demo_mapping: "supabase_single demoWorld ''user-1'' = Row demoUserWallet"
  by (simp add: demoWorld_def)

lemma demo_wallet_id: "para_wallet_id demoUserWallet = ''wal_1''"
  by (simp add: demoUserWallet_def)

lemma demo_wallet:
  "paraClient_getWallet demoWorld k ''wal_1'' = Inr (demoWallet ''ready'' (Some demoSender))"
  by (simp add: demoWorld_def)

lemma demo_balance: "provider_getBalance demoWorld a = Inr 1500000000000000000"
  by (simp add: demoWorld_def balanceOf_def)

lemma demoWallet_fields:
  "pw_status (demoWallet st addr) = st" "pw_address (demoWallet st addr) = addr"
  by (simp_all add: demoWallet_def)

lemma demoSender_nonempty: "demoSender \<noteq> []"
  by (simp add: demoSender_def)

theorem wallet_details_eth_truncated_witness:
  "(\<exists>wb. fst (walletDetails demoWorld (Some ''user-1''))
           = \<lparr> http_status = 200, http_body = WalletBody wb \<rparr>
        \<and> map_option bal_wei (wb_balance wb) = Some ''1500000000000000000''
        \<and> map_option bal_eth (wb_balance wb) = Some ''1'')
   \<and> (\<exists>wb. fst (walletDetails (demoWorld \<lparr> provider_getBalance := balanceOf 999999999999999999 \<rparr>)
                 (Some ''user-1''))
           = \<lparr> http_status = 200, http_body = WalletBody wb \<rparr>
        \<and> map_option bal_wei (wb_balance wb) = Some ''999999999999999999''
        \<and> map_option bal_eth (wb_balance wb) = Some ''0'')"
proof -
  have s: "toString 1500000000000000000 = ''1500000000000000000''"
    "toString 999999999999999999 = ''999999999999999999''"
    by code_simp+
  have u: "\<not> falsy (Some ''user-1'')"
    by (simp add: falsy_def)
  from wallet_details_eth_truncated [of "Some ''user-1''" demoWorld demoUserWallet
      "demoWallet ''ready'' (Some demoSender)" demoSender demoSender 1500000000000000000,
      OF u]
  have 1: "\<exists>wb. fst (walletDetails demoWorld (Some ''user-1''))
           = \<lparr> http_status = 200, http_body = WalletBody wb \<rparr>
        \<and> map_option bal_wei (wb_balance wb) = Some ''1500000000000000000''
        \<and> map_option bal_eth (wb_balance wb) = Some ''1''"
    by (simp add: demo_mapping demo_wallet_id demo_wallet demoWallet_fields demoSender_nonempty
        demo_addresses demo_balance s) blast
  from wallet_details_eth_truncated [of "Some ''user-1''"
      "demoWorld \<lparr> provider_getBalance := balanceOf 999999999999999999 \<rparr>" demoUserWallet
      "demoWallet ''ready'' (Some demoSender)" demoSender demoSender 999999999999999999,
      OF u]
  have 2: "\<exists>wb. fst (walletDetails (demoWorld \<lparr> provider_getBalance := balanceOf 999999999999999999 \<rparr>)
                 (Some ''user-1''))
           = \<lparr> http_status = 200, http_body = WalletBody wb \<rparr>
        \<and> map_option bal_wei (wb_balance wb) = Some ''999999999999999999''
        \<and> map_option bal_eth (wb_balance wb) = Some ''0''"
    by (simp add: demo_mapping demo_wallet_id demo_wallet demoWallet_fields demoSender_nonempty
        demo_addresses balanceOf_def s) blast
  from 1 2 show ?thesis
    by simp
qed

theorem send_wallet_not_ready_witness:
  "send (demoWorld \<lparr> paraClient_getWallet := readyAfter 1 \<rparr>) (Some ''user-1'') (demoRequest ''0.001'')
     = (notReadyResponse, [DbSelectUserWallet ''user-1'', ParaGetWallet ''wal_1''])
   \<and> filter isChainRpc
        (snd (send (demoWorld \<lparr> paraClient_getWallet := readyAfter 1 \<rparr>) (Some ''user-1'')
                (demoRequest ''0.001''))) = []"
proof -
  have a: "\<not> isl (ethers_getAddress (demoWorld \<lparr> paraClient_getWallet := readyAfter 1 \<rparr>)
                    (req_to (demoRequest ''0.001'')))"
    using demo_addresses(2) by (simp add: demoRequest_def)
  have r: "req_to (demoRequest ''0.001'') \<noteq> []" "req_amount (demoRequest ''0.001'') \<noteq> []"
    by (simp_all add: demoRequest_def demoRecipient_def)
  from send_wallet_not_ready [of "demoWorld \<lparr> paraClient_getWallet := readyAfter 1 \<rparr>"
      "''user-1''" demoUserWallet "demoWallet ''creating'' None" "demoRequest ''0.001''"]
  show ?thesis
    using a r by (simp add: demo_mapping demo_wallet_id readyAfter_def demoWallet_fields)
qed

theorem send_malformed_address_witness:
  "http_status (fst (send demoWorld (Some ''user-1'')
       ((demoRequest ''0.001'') \<lparr> req_to := ''not-an-address'' \<rparr>))) = 400
   \<and> snd (send demoWorld (Some ''user-1'')
       ((demoRequest ''0.001'') \<lparr> req_to := ''not-an-address'' \<rparr>)) = []"
proof -
  have u: "\<not> falsy (Some ''user-1'')"
    by (simp add: falsy_def)
  from send_malformed_address [of "Some ''user-1''" demoWorld
      "(demoRequest ''0.001'') \<lparr> req_to := ''not-an-address'' \<rparr>" "''invalid address''", OF u]
  show ?thesis
    by (simp add: demo_addresses)
qed


subsection \<open>The send operation with the serializer as shipped\<close>






lemma await_thrown: "fst m = Inl e \<Longrightarrow> await m f = (Inl e, snd m)"
  by (cases m) (simp add: await_Inl)

text \<open>
  The frame of the reassembly: \<open>serializeWithSignature\<close> hands the serializer the
  transaction it was given with the signature added and nothing else changed.
\<close>

lemma withSignature_frame:
  "withSignature tx signature =
     tx \<lparr> tx_signature := Some (if startsWith signature ''0x'' then signature
                                 else ''0x'' @ signature) \<rparr>"
  by (simp add: withSignature_def Let_def)


lemma demo_request:
  "req_to (demoRequest amount) = demoRecipient" "req_amount (demoRequest amount) = amount"
  "req_gasLimit (demoRequest amount) = None" "demoRecipient \<noteq> []"
  by (simp_all add: demoRequest_def demoRecipient_def)

lemma demo_serializer: "\<forall>tx. isl (ethers_serializeTransaction demoWorld tx)"
  by (simp add: demoWorld_def undefinedSerializeTransaction_def)

lemma demo_object:
  "transactionObject demoWorld demoSender (demoRequest ''0.001'')
     = (Inr demoTransaction, [RpcGetTransactionCount demoSender, RpcGetFeeData])"
  by code_simp


subsection \<open>The send operation: the amount\<close>

lemma transactionObject_amount_rejected:
  assumes "isl (ethers_parseEther w (req_amount r))"
  shows "\<exists>e. fst (transactionObject w a r) = Inl e"
proof (cases "transactionObject w a r")
  case (Pair res t)
  show ?thesis
  proof (cases res)
    case (Inl e)
    with Pair show ?thesis by simp
  next
    case (Inr tx)
    with Pair have "transactionObject w a r = (Inr tx, t)" by simp
    from transactionObject_inv [OF this]
    have "ethers_parseEther w (req_amount r) = Inr (tx_value tx)" by blast
    with assms show ?thesis by simp
  qed
qed

lemma buildUnsignedTransaction_amount_rejected:
  assumes "isl (ethers_parseEther w (req_amount r))"
  shows "\<exists>e. fst (buildUnsignedTransaction w a r) = Inl e"
proof -
  from transactionObject_amount_rejected [OF assms, of a]
  obtain e where "fst (transactionObject w a r) = Inl e" ..
  then have "transactionObject w a r = (Inl e, snd (transactionObject w a r))"
    by (cases "transactionObject w a r") simp
  from buildUnsignedTransaction_not_built [OF this] show ?thesis
    by simp
qed

text \<open>
  Claim C3 says that \<open>send\<close> rejects the amount \<open>"0"\<close>, a negative and a non-numeric
  amount with 400. The code does not: the handler only tests that the amount is present.
  For a request that passes validation, with a ready wallet, an amount that \<open>parseEther\<close>
  throws on reaches \<open>buildUnsignedTransaction\<close> and is answered 500; with the serializer
  as shipped, so is every other amount.
\<close>

theorem send_amount_answers_500:
  assumes "u \<noteq> []" "req_to r \<noteq> []" "req_amount r \<noteq> []"
    and "ethers_getAddress w (req_to r) = Inr c"
    and "supabase_single w u = Row uw"
    and "paraClient_getWallet w 0 (para_wallet_id uw) = Inr pw"
    and "pw_status pw = ''ready''" and "pw_address pw = Some a" and "a \<noteq> []"
    and "isl (ethers_parseEther w (req_amount r)) \<or> (\<forall>tx. isl (ethers_serializeTransaction w tx))"
  shows "http_status (fst (send w (Some u) r)) = 500
       \<and> take 2 (snd (send w (Some u) r))
           = [DbSelectUserWallet u, ParaGetWallet (para_wallet_id uw)]"
proof -
  from assms(10) obtain e where "fst (buildUnsignedTransaction w a r) = Inl e"
    using buildUnsignedTransaction_amount_rejected [of w r a]
      buildUnsignedTransaction_throws [of w a r]
    by blast
  then have thrown: "\<And>f. await (buildUnsignedTransaction w a r) f
                 = (Inl e, snd (buildUnsignedTransaction w a r))"
    by (rule await_thrown)
  show ?thesis
    unfolding send_ready [OF assms(1-9)]
    by (simp add: handler_def await_Inr thrown)
qed

text \<open>
  The failing inputs of claim C3: the amounts \<open>"abc"\<close>, \<open>"0"\<close> and \<open>"-1"\<close>, each answered
  500 after the database lookup, the wallet fetch, the nonce lookup and the fee lookup.
\<close>

theorem send_amount_answers_500_witness:
  "http_status (fst (send demoWorld (Some ''user-1'') (demoRequest ''abc''))) = 500
   \<and> snd (send demoWorld (Some ''user-1'') (demoRequest ''abc''))
       = [DbSelectUserWallet ''user-1'', ParaGetWallet ''wal_1'',
          RpcGetTransactionCount demoSender, RpcGetFeeData]
   \<and> http_status (fst (send demoWorld (Some ''user-1'') (demoRequest ''0''))) = 500
   \<and> snd (send demoWorld (Some ''user-1'') (demoRequest ''0''))
       = [DbSelectUserWallet ''user-1'', ParaGetWallet ''wal_1'',
          RpcGetTransactionCount demoSender, RpcGetFeeData]
   \<and> http_status (fst (send demoWorld (Some ''user-1'') (demoRequest ''-1''))) = 500
   \<and> snd (send demoWorld (Some ''user-1'') (demoRequest ''-1''))
       = [DbSelectUserWallet ''user-1'', ParaGetWallet ''wal_1'',
          RpcGetTransactionCount demoSender, RpcGetFeeData]"
proof -
  have u: "''user-1'' \<noteq> []"
    by simp
  have p: "isl (ethers_parseEther demoWorld ''abc'')"
    by code_simp
  have t: "snd (send demoWorld (Some ''user-1'') (demoRequest ''abc''))
             = [DbSelectUserWallet ''user-1'', ParaGetWallet ''wal_1'',
                RpcGetTransactionCount demoSender, RpcGetFeeData]"
    "snd (send demoWorld (Some ''user-1'') (demoRequest ''0''))
             = [DbSelectUserWallet ''user-1'', ParaGetWallet ''wal_1'',
                RpcGetTransactionCount demoSender, RpcGetFeeData]"
    "snd (send demoWorld (Some ''user-1'') (demoRequest ''-1''))
             = [DbSelectUserWallet ''user-1'', ParaGetWallet ''wal_1'',
                RpcGetTransactionCount demoSender, RpcGetFeeData]"
    by code_simp+
  from send_amount_answers_500 [of "''user-1''" "demoRequest ''abc''" demoWorld demoRecipient
      demoUserWallet "demoWallet ''ready'' (Some demoSender)" demoSender, OF u]
  have 1: "http_status (fst (send demoWorld (Some ''user-1'') (demoRequest ''abc''))) = 500"
    using p
    by (simp add: demo_request demo_addresses demo_mapping demo_wallet_id demo_wallet
        demoWallet_fields demoSender_nonempty)
  from send_amount_answers_500 [of "''user-1''" "demoRequest ''0''" demoWorld demoRecipient
      demoUserWallet "demoWallet ''ready'' (Some demoSender)" demoSender, OF u]
  have 2: "http_status (fst (send demoWorld (Some ''user-1'') (demoRequest ''0''))) = 500"
    using demo_serializer
    by (simp add: demo_request demo_addresses demo_mapping demo_wallet_id demo_wallet
        demoWallet_fields demoSender_nonempty)
  from send_amount_answers_500 [of "''user-1''" "demoRequest ''-1''" demoWorld demoRecipient
      demoUserWallet "demoWallet ''ready'' (Some demoSender)" demoSender, OF u]
  have 3: "http_status (fst (send demoWorld (Some ''user-1'') (demoRequest ''-1''))) = 500"
    using demo_serializer
    by (simp add: demo_request demo_addresses demo_mapping demo_wallet_id demo_wallet
        demoWallet_fields demoSender_nonempty)
  from 1 2 3 t show ?thesis
    by simp
qed

subsection \<open>Nonce and gas fields\<close>

text \<open>
  Claim C6, as stated, fails for the gas limit: without an override, the object that
  \<open>buildUnsignedTransaction\<close> constructs has the constant 21000 as its \<open>gasLimit\<close>, which
  is neither of the two fees the chain reader estimates.
\<close>

theorem gas_limit_default_counterexample:
  "req_gasLimit (demoRequest ''0.001'') = None
   \<and> provider_getFeeData demoWorld
       = Inr \<lparr> fee_maxFeePerGas = Some 50000000000, fee_maxPriorityFeePerGas = Some 2000000000 \<rparr>
   \<and> map_sum id tx_gasLimit
       (fst (transactionObject demoWorld demoSender (demoRequest ''0.001''))) = Inr 21000"
  by (simp add: demo_object demo_request demoTransaction_def) (simp add: demoWorld_def)

text \<open>
  Claim C6, amended. Whenever \<open>buildUnsignedTransaction\<close> gets as far as constructing the
  transaction object, the nonce of the object is the chain reader's transaction count
  for the (checksummed) sender address; \<open>maxFeePerGas\<close> and \<open>maxPriorityFeePerGas\<close> are the
  caller's override (read with \<open>BigInt\<close>) when one is given and not empty, and otherwise
  the chain reader's fee estimate; \<open>gasLimit\<close> is the caller's override when given and
  otherwise 21000. The lookups are one transaction count and one fee estimate, and the
  outcome of \<open>buildUnsignedTransaction\<close> is that of the serializer on this object.
\<close>

theorem transactionObject_nonce_and_gas:
  assumes "transactionObject w fromAddress r = (Inr tx, t)"
  shows "\<exists>cf cn fd.
      ethers_getAddress w fromAddress = Inr cf \<and> ethers_getAddress w cf = Inr cn
    \<and> provider_getTransactionCount w cn = Inr (tx_nonce tx)
    \<and> provider_getFeeData w = Inr fd
    \<and> (if \<not> falsy (req_gasLimit r) then BigInt (the (req_gasLimit r)) else Inr 21000)
        = Inr (tx_gasLimit tx)
    \<and> (if \<not> falsy (req_maxFeePerGas r) then BigInt (the (req_maxFeePerGas r))
        else Inr (the (fee_maxFeePerGas fd))) = Inr (tx_maxFeePerGas tx)
    \<and> (if \<not> falsy (req_maxPriorityFeePerGas r) then BigInt (the (req_maxPriorityFeePerGas r))
        else Inr (the (fee_maxPriorityFeePerGas fd))) = Inr (tx_maxPriorityFeePerGas tx)
    \<and> t = [RpcGetTransactionCount cn, RpcGetFeeData]
    \<and> buildUnsignedTransaction w fromAddress r =
         (case ethers_serializeTransaction w tx of
            Inl e \<Rightarrow> (Inl (''Failed to build transaction: '' @ e), t)
          | Inr h \<Rightarrow> (Inr (tx, h), t))"
  using transactionObject_inv [OF assms] buildUnsignedTransaction_built [OF assms] by blast

theorem transactionObject_nonce_and_gas_witness:
  "provider_getTransactionCount demoWorld demoSender = Inr (tx_nonce demoTransaction)
   \<and> tx_nonce demoTransaction = 7
   \<and> tx_gasLimit demoTransaction = 21000
   \<and> tx_maxFeePerGas demoTransaction = 50000000000
   \<and> tx_maxPriorityFeePerGas demoTransaction = 2000000000
   \<and> isl (fst (buildUnsignedTransaction demoWorld demoSender (demoRequest ''0.001'')))"
proof -
  from transactionObject_nonce_and_gas [OF demo_object]
  show ?thesis
    by (auto simp: demo_addresses demo_request demoRequest_def falsy_def demoWorld_def
        demoTransaction_def undefinedSerializeTransaction_def)
qed

subsection \<open>Polling until the wallet is ready\<close>















subsection \<open>Transaction status\<close>

lemma toString_nonempty: "toString v \<noteq> []"
proof (cases "v < 0")
  case True
  then show ?thesis by (simp add: toString_def)
next
  case False
  then have "0 \<le> v" by simp
  from digits_ok [OF this] False show ?thesis by (simp add: toString_def)
qed

lemma receiptBody_value:
  "tb_value (receiptBody rc) = (case rc_value rc of None \<Rightarrow> ''0'' | Some v \<Rightarrow> toString v)"
  by (simp add: receiptBody_def orElse_def toString_nonempty split: option.splits)

text \<open>
  Claim C8, as stated, fails: the hash check looks at the prefix and the length only. A
  string of the right length that starts with \<open>0x\<close> but is not hexadecimal is not
  rejected with 400; the chain is queried, and here the answer is 404.
\<close>

theorem non_hex_hash_counterexample:
  "\<not> isHexString (''0x'' @ replicate 64 CHR ''z'')
   \<and> transactionStatus demoWorld (''0x'' @ replicate 64 CHR ''z'')
       = (\<lparr> http_status = 404,
            http_body = ErrorBody ''Not Found'' ''Transaction not yet mined or invalid hash'' \<rparr>,
          [RpcWaitForTransaction (''0x'' @ replicate 64 CHR ''z'') 0])"
  by code_simp

text \<open>
  Claim C8, amended. The transaction-status operation rejects with 400, before querying
  the chain, every string that does not start with \<open>0x\<close> or whose length is not 66 (the
  characters after the prefix are not checked). For every other string it queries the
  chain once, with 0 confirmations: when the query throws or finds no receipt the answer
  is 404; for a receipt the answer is 200 with the receipt's block number, the status
  \<open>success\<close> for the status code 1 and \<open>failed\<close> for 0 (and for any other code), the gas
  used, and the value (\<open>"0"\<close> when the receipt has none).
\<close>

theorem transactionStatus_outcomes:
  "(\<not> startsWith txHash ''0x'' \<or> length txHash \<noteq> 66
      \<longrightarrow> transactionStatus w txHash
          = (\<lparr> http_status = 400,
               http_body = ErrorBody ''Bad Request'' ''Invalid transaction hash format'' \<rparr>, []))
   \<and> (startsWith txHash ''0x'' \<and> length txHash = 66
      \<longrightarrow> snd (transactionStatus w txHash) = [RpcWaitForTransaction txHash 0]
        \<and> (isl (provider_waitForTransaction w txHash 0)
             \<or> provider_waitForTransaction w txHash 0 = Inr None
           \<longrightarrow> http_status (fst (transactionStatus w txHash)) = 404)
        \<and> (\<forall>rc. provider_waitForTransaction w txHash 0 = Inr (Some rc)
           \<longrightarrow> fst (transactionStatus w txHash)
                 = \<lparr> http_status = 200, http_body = TxBody (receiptBody rc) \<rparr>
             \<and> tb_blockNumber (receiptBody rc) = rc_blockNumber rc
             \<and> tb_gasUsed (receiptBody rc) = toString (rc_gasUsed rc)
             \<and> tb_value (receiptBody rc)
                 = (case rc_value rc of None \<Rightarrow> ''0'' | Some v \<Rightarrow> toString v)
             \<and> (rc_status rc = Some 1 \<longrightarrow> tb_status (receiptBody rc) = ''success'')
             \<and> (rc_status rc \<noteq> Some 1 \<longrightarrow> tb_status (receiptBody rc) = ''failed'')))"
proof (intro conjI impI allI)
  assume "\<not> startsWith txHash ''0x'' \<or> length txHash \<noteq> 66"
  then show "transactionStatus w txHash
          = (\<lparr> http_status = 400,
               http_body = ErrorBody ''Bad Request'' ''Invalid transaction hash format'' \<rparr>, [])"
    by (auto simp: transactionStatus_def handler_def io_simps)
next
  assume "startsWith txHash ''0x'' \<and> length txHash = 66"
  then show "snd (transactionStatus w txHash) = [RpcWaitForTransaction txHash 0]"
    by (cases "provider_waitForTransaction w txHash 0")
       (auto simp: transactionStatus_def handler_def waitForTransaction_def io_simps
          split: option.splits)
next
  assume "startsWith txHash ''0x'' \<and> length txHash = 66"
    and "isl (provider_waitForTransaction w txHash 0)
             \<or> provider_waitForTransaction w txHash 0 = Inr None"
  then show "http_status (fst (transactionStatus w txHash)) = 404"
    by (cases "provider_waitForTransaction w txHash 0")
       (auto simp: transactionStatus_def handler_def waitForTransaction_def io_simps)
next
  fix rc :: receipt
  assume "startsWith txHash ''0x'' \<and> length txHash = 66"
    and "provider_waitForTransaction w txHash 0 = Inr (Some rc)"
  then show "fst (transactionStatus w txHash)
                 = \<lparr> http_status = 200, http_body = TxBody (receiptBody rc) \<rparr>"
    by (simp add: transactionStatus_def handler_def waitForTransaction_def io_simps)
next
  fix rc :: receipt
  show "tb_blockNumber (receiptBody rc) = rc_blockNumber rc"
    by (simp add: receiptBody_def)
next
  fix rc :: receipt
  show "tb_gasUsed (receiptBody rc) = toString (rc_gasUsed rc)"
    by (simp add: receiptBody_def)
next
  fix rc :: receipt
  show "tb_value (receiptBody rc) = (case rc_value rc of None \<Rightarrow> ''0'' | Some v \<Rightarrow> toString v)"
    by (rule receiptBody_value)
next
  fix rc :: receipt
  assume "rc_status rc = Some 1"
  then show "tb_status (receiptBody rc) = ''success''"
    by (simp add: receiptBody_def)
next
  fix rc :: receipt
  assume "rc_status rc \<noteq> Some 1"
  then show "tb_status (receiptBody rc) = ''failed''"
    by (simp add: receiptBody_def)
qed

lemma minedHash_shape: "startsWith minedHash ''0x''" "length minedHash = 66"
  by (simp_all add: minedHash_def startsWith_def)

lemma demo_receipt: "provider_waitForTransaction demoWorld minedHash 0 = Inr (Some (demoReceipt 1))"
  by code_simp

theorem transactionStatus_outcomes_witness:
  "transactionStatus demoWorld ''0x12''
     = (\<lparr> http_status = 400,
          http_body = ErrorBody ''Bad Request'' ''Invalid transaction hash format'' \<rparr>, [])
   \<and> fst (transactionStatus demoWorld minedHash)
       = \<lparr> http_status = 200, http_body = TxBody (receiptBody (demoReceipt 1)) \<rparr>
   \<and> tb_status (receiptBody (demoReceipt 1)) = ''success''
   \<and> tb_status (receiptBody (demoReceipt 0)) = ''failed''"
proof -
  have 1: "transactionStatus demoWorld ''0x12''
     = (\<lparr> http_status = 400,
          http_body = ErrorBody ''Bad Request'' ''Invalid transaction hash format'' \<rparr>, [])"
    using transactionStatus_outcomes [of "''0x12''" demoWorld] by simp
  have 2: "fst (transactionStatus demoWorld minedHash)
       = \<lparr> http_status = 200, http_body = TxBody (receiptBody (demoReceipt 1)) \<rparr>
     \<and> tb_status (receiptBody (demoReceipt 1)) = ''success''"
    using transactionStatus_outcomes [of minedHash demoWorld]
    by (simp add: minedHash_shape demo_receipt) (simp add: demoReceipt_def)
  have 3: "tb_status (receiptBody (demoReceipt 0)) = ''failed''"
    using transactionStatus_outcomes [of minedHash
        "demoWorld \<lparr> provider_waitForTransaction := (\<lambda>h c. Inr (Some (demoReceipt 0))) \<rparr>"]
    by (simp add: minedHash_shape) (simp add: demoReceipt_def)
  from 1 2 3 show ?thesis
    by simp
qed

subsection \<open>Configuration\<close>

lemma checkRequired_None:
  "checkRequired env vs = None \<longleftrightarrow> (\<forall>v \<in> set vs. \<not> falsy (env v))"
  by (induction vs) auto

lemma parseInt_defaults:
  "parseInt ''3000'' = Some 3000" "parseInt ''11155111'' = Some 11155111"
  by code_simp+

text \<open>
  Claim C9, as stated, fails: with only the six variables of \<open>requiredVars\<close> set, and no
  \<open>PORT\<close>, \<open>NODE_ENV\<close>, \<open>PARA_BASE_URL\<close> or \<open>SEPOLIA_CHAIN_ID\<close>, the configuration loads,
  with the defaults 3000, \<open>development\<close>, \<open>https://api.getpara.com\<close> and 11155111.
\<close>

theorem optional_config_counterexample:
  "minimalEnv ''PORT'' = None \<and> minimalEnv ''NODE_ENV'' = None
   \<and> minimalEnv ''PARA_BASE_URL'' = None \<and> minimalEnv ''SEPOLIA_CHAIN_ID'' = None
   \<and> loadConfig minimalEnv =
       Inr \<lparr> port = Some 3000, nodeEnv = ''development'',
             supabase = \<lparr> url = Some ''https://p.supabase.co'', anonKey = Some ''anon'',
                          serviceRoleKey = Some ''service'', jwtSecret = Some ''secret'' \<rparr>,
             para = \<lparr> apiKey = Some ''key'', baseUrl = ''https://api.getpara.com'' \<rparr>,
             ethereum = \<lparr> rpcUrl = Some ''https://rpc.example'', chainId = Some 11155111 \<rparr> \<rparr>"
  by code_simp

text \<open>
  Claim C9, amended. Six configuration items are required at startup: \<open>SUPABASE_URL\<close>,
  \<open>SUPABASE_ANON_KEY\<close>, \<open>SUPABASE_SERVICE_ROLE_KEY\<close>, \<open>SUPABASE_JWT_SECRET\<close>,
  \<open>PARA_API_KEY\<close> and \<open>SEPOLIA_RPC_URL\<close>. Loading the configuration throws exactly when
  one of these six is absent or empty. The custody provider's base URL, the chain id, the
  listen port and the environment name are optional: they play no part in whether the
  configuration loads, and when absent or empty they are \<open>https://api.getpara.com\<close>,
  11155111, 3000 and \<open>development\<close>.
\<close>

theorem config_six_required_four_optional:
  "(isl (loadConfig env) \<longleftrightarrow>
      falsy (env ''SUPABASE_URL'') \<or> falsy (env ''SUPABASE_ANON_KEY'')
      \<or> falsy (env ''SUPABASE_SERVICE_ROLE_KEY'') \<or> falsy (env ''SUPABASE_JWT_SECRET'')
      \<or> falsy (env ''PARA_API_KEY'') \<or> falsy (env ''SEPOLIA_RPC_URL''))
   \<and> (\<forall>c. loadConfig env = Inr c \<longrightarrow>
        (falsy (env ''PORT'') \<longrightarrow> port c = Some 3000)
      \<and> (falsy (env ''NODE_ENV'') \<longrightarrow> nodeEnv c = ''development'')
      \<and> (falsy (env ''PARA_BASE_URL'') \<longrightarrow> baseUrl (para c) = ''https://api.getpara.com'')
      \<and> (falsy (env ''SEPOLIA_CHAIN_ID'') \<longrightarrow> chainId (ethereum c) = Some 11155111))"
proof (intro conjI allI impI)
  show "isl (loadConfig env) \<longleftrightarrow>
      falsy (env ''SUPABASE_URL'') \<or> falsy (env ''SUPABASE_ANON_KEY'')
      \<or> falsy (env ''SUPABASE_SERVICE_ROLE_KEY'') \<or> falsy (env ''SUPABASE_JWT_SECRET'')
      \<or> falsy (env ''PARA_API_KEY'') \<or> falsy (env ''SEPOLIA_RPC_URL'')"
    using checkRequired_None [of env requiredVars]
    by (cases "checkRequired env requiredVars") (auto simp: loadConfig_def requiredVars_def)
next
  fix c
  assume "loadConfig env = Inr c"
  then have c: "c = buildConfig env"
    by (auto simp: loadConfig_def split: option.splits)
  {
    assume "falsy (env ''PORT'')"
    then show "port c = Some 3000"
      by (auto simp: c buildConfig_def orElse_def falsy_def parseInt_defaults split: option.splits)
  next
    assume "falsy (env ''NODE_ENV'')"
    then show "nodeEnv c = ''development''"
      by (auto simp: c buildConfig_def orElse_def falsy_def split: option.splits)
  next
    assume "falsy (env ''PARA_BASE_URL'')"
    then show "baseUrl (para c) = ''https://api.getpara.com''"
      by (auto simp: c buildConfig_def orElse_def falsy_def split: option.splits)
  next
    assume "falsy (env ''SEPOLIA_CHAIN_ID'')"
    then show "chainId (ethereum c) = Some 11155111"
      by (auto simp: c buildConfig_def orElse_def falsy_def parseInt_defaults split: option.splits)
  }
qed

text \<open>
  With the six set and none of the four optional ones, the configuration loads with the
  four defaults; taking any one of the six away makes loading throw.
\<close>

theorem config_six_required_four_optional_witness:
  "\<not> isl (loadConfig minimalEnv)
   \<and> port (projr (loadConfig minimalEnv)) = Some 3000
   \<and> nodeEnv (projr (loadConfig minimalEnv)) = ''development''
   \<and> baseUrl (para (projr (loadConfig minimalEnv))) = ''https://api.getpara.com''
   \<and> chainId (ethereum (projr (loadConfig minimalEnv))) = Some 11155111
   \<and> isl (loadConfig (minimalEnv (''SUPABASE_URL'' := None)))
   \<and> isl (loadConfig (minimalEnv (''SUPABASE_ANON_KEY'' := None)))
   \<and> isl (loadConfig (minimalEnv (''SUPABASE_SERVICE_ROLE_KEY'' := None)))
   \<and> isl (loadConfig (minimalEnv (''SUPABASE_JWT_SECRET'' := None)))
   \<and> isl (loadConfig (minimalEnv (''PARA_API_KEY'' := None)))
   \<and> isl (loadConfig (minimalEnv (''SEPOLIA_RPC_URL'' := None)))"
proof -
  have six: "\<not> falsy (minimalEnv ''SUPABASE_URL'')" "\<not> falsy (minimalEnv ''SUPABASE_ANON_KEY'')"
    "\<not> falsy (minimalEnv ''SUPABASE_SERVICE_ROLE_KEY'')"
    "\<not> falsy (minimalEnv ''SUPABASE_JWT_SECRET'')"
    "\<not> falsy (minimalEnv ''PARA_API_KEY'')" "\<not> falsy (minimalEnv ''SEPOLIA_RPC_URL'')"
    by (simp_all add: minimalEnv_def falsy_def)
  have four: "falsy (minimalEnv ''PORT'')" "falsy (minimalEnv ''NODE_ENV'')"
    "falsy (minimalEnv ''PARA_BASE_URL'')" "falsy (minimalEnv ''SEPOLIA_CHAIN_ID'')"
    by (simp_all add: minimalEnv_def falsy_def)
  from config_six_required_four_optional [of minimalEnv] six
  have 1: "\<not> isl (loadConfig minimalEnv)"
    by blast
  then obtain c where c: "loadConfig minimalEnv = Inr c"
    by (cases "loadConfig minimalEnv") auto
  from config_six_required_four_optional [of minimalEnv] c four
  have 2: "port c = Some 3000 \<and> nodeEnv c = ''development''
      \<and> baseUrl (para c) = ''https://api.getpara.com'' \<and> chainId (ethereum c) = Some 11155111"
    by blast
  have 3: "isl (loadConfig (minimalEnv (''SUPABASE_URL'' := None)))"
    using config_six_required_four_optional [of "minimalEnv (''SUPABASE_URL'' := None)"]
    by (simp add: falsy_def)
  have 4: "isl (loadConfig (minimalEnv (''SUPABASE_ANON_KEY'' := None)))"
    using config_six_required_four_optional [of "minimalEnv (''SUPABASE_ANON_KEY'' := None)"]
    by (simp add: falsy_def)
  have 5: "isl (loadConfig (minimalEnv (''SUPABASE_SERVICE_ROLE_KEY'' := None)))"
    using config_six_required_four_optional [of "minimalEnv (''SUPABASE_SERVICE_ROLE_KEY'' := None)"]
    by (simp add: falsy_def)
  have 6: "isl (loadConfig (minimalEnv (''SUPABASE_JWT_SECRET'' := None)))"
    using config_six_required_four_optional [of "minimalEnv (''SUPABASE_JWT_SECRET'' := None)"]
    by (simp add: falsy_def)
  have 7: "isl (loadConfig (minimalEnv (''PARA_API_KEY'' := None)))"
    using config_six_required_four_optional [of "minimalEnv (''PARA_API_KEY'' := None)"]
    by (simp add: falsy_def)
  have 8: "isl (loadConfig (minimalEnv (''SEPOLIA_RPC_URL'' := None)))"
    using config_six_required_four_optional [of "minimalEnv (''SEPOLIA_RPC_URL'' := None)"]
    by (simp add: falsy_def)
  from 1 2 3 4 5 6 7 8 c show ?thesis
    by simp
qed

end
